theory Spec2Isabelle
  imports Main "HOL-Library.AList"
begin

section \<open>Python values\<close>

text \<open>
  The values that travel through \<^verbatim>\<open>subquery.py\<close> are decoded JSON (messages, tool calls,
  completion responses) and a few host objects handed in by Open WebUI.  A dictionary is an
  association list in insertion order, keyed by strings, as every JSON object and every
  keyword mapping is.  A float is kept by its \<^verbatim>\<open>repr\<close>; no arithmetic is done on it.
  A string is a list of characters; a character stands for the code point of the same
  number, so the strings of the model are the Python strings over U+0000 .. U+00FF.
\<close>

datatype pyval =
    PNone
  | PBool bool
  | PInt int
  | PFloat string
  | PStr string
  | PList "pyval list"
  | PDict "(string \<times> pyval) list"
  | PObj string

type_synonym pydict = "(string \<times> pyval) list"

text \<open>The exceptions the module can raise or let through.  \<open>Raised\<close> is an exception
  coming out of a collaborator (the completion service, a tool, the notification sink).\<close>

datatype error =
    KeyError
  | IndexError
  | TypeError
  | ValueError
  | AttributeError
  | RuntimeError string
  | Raised string

text \<open>Sequencing of steps that may raise: the first exception ends the computation.\<close>

definition and_then :: "error + 'a \<Rightarrow> ('a \<Rightarrow> error + 'b) \<Rightarrow> error + 'b" where
  "and_then m f = (case m of Inl e \<Rightarrow> Inl e | Inr x \<Rightarrow> f x)"

text \<open>Truth value testing (\<^verbatim>\<open>if x\<close>, \<^verbatim>\<open>x or y\<close>).\<close>

fun truthy :: "pyval \<Rightarrow> bool" where
  "truthy PNone = False"
| "truthy (PBool b) = b"
| "truthy (PInt i) = (i \<noteq> 0)"
| "truthy (PFloat r) = (r \<noteq> ''0.0'' \<and> r \<noteq> ''-0.0'')"
| "truthy (PStr s) = (s \<noteq> [])"
| "truthy (PList xs) = (xs \<noteq> [])"
| "truthy (PDict d) = (d \<noteq> [])"
| "truthy (PObj _) = True"

definition py_or :: "pyval \<Rightarrow> pyval \<Rightarrow> pyval" where
  "py_or x y = (if truthy x then x else y)"

text \<open>\<^verbatim>\<open>isinstance(x, dict)\<close>, \<^verbatim>\<open>isinstance(x, str)\<close> and \<^verbatim>\<open>isinstance(x, int)\<close>;
  \<^verbatim>\<open>bool\<close> is a subclass of \<^verbatim>\<open>int\<close>.\<close>

fun is_dict :: "pyval \<Rightarrow> bool" where
  "is_dict (PDict _) = True"
| "is_dict _ = False"

fun is_str :: "pyval \<Rightarrow> bool" where
  "is_str (PStr _) = True"
| "is_str _ = False"

fun is_int :: "pyval \<Rightarrow> bool" where
  "is_int (PInt _) = True"
| "is_int (PBool _) = True"
| "is_int _ = False"

text \<open>\<^verbatim>\<open>d.get(k, default)\<close> and \<^verbatim>\<open>d[k] = v\<close> on a dictionary: a key that is present keeps
  its place, a new key goes to the end.\<close>

definition dict_get :: "pydict \<Rightarrow> string \<Rightarrow> pyval \<Rightarrow> pyval" where
  "dict_get d k dflt = (case map_of d k of Some v \<Rightarrow> v | None \<Rightarrow> dflt)"

definition dict_set :: "string \<Rightarrow> pyval \<Rightarrow> pydict \<Rightarrow> pydict" where
  "dict_set k v d = AList.update k v d"

text \<open>\<^verbatim>\<open>d.update(other)\<close>: the entries of \<open>other\<close> are stored one by one, in order.\<close>

definition dict_update :: "pydict \<Rightarrow> pydict \<Rightarrow> pydict" where
  "dict_update d other = fold (\<lambda>(k, v). dict_set k v) other d"

text \<open>\<^verbatim>\<open>x.get(k, default)\<close> on any value: only a dictionary has the method.\<close>

fun py_get :: "pyval \<Rightarrow> string \<Rightarrow> pyval \<Rightarrow> error + pyval" where
  "py_get (PDict d) k dflt = Inr (dict_get d k dflt)"
| "py_get _ k dflt = Inl AttributeError"

text \<open>\<^verbatim>\<open>x[k]\<close> with a string key and \<^verbatim>\<open>x[0]\<close>.\<close>

fun item_str :: "pyval \<Rightarrow> string \<Rightarrow> error + pyval" where
  "item_str (PDict d) k = (case map_of d k of Some v \<Rightarrow> Inr v | None \<Rightarrow> Inl KeyError)"
| "item_str _ k = Inl TypeError"

fun item_first :: "pyval \<Rightarrow> error + pyval" where
  "item_first (PList []) = Inl IndexError"
| "item_first (PList (x # _)) = Inr x"
| "item_first (PStr []) = Inl IndexError"
| "item_first (PStr (c # _)) = Inr (PStr [c])"
| "item_first (PDict _) = Inl KeyError"
| "item_first _ = Inl TypeError"

section \<open>Strings\<close>

text \<open>White space as \<^verbatim>\<open>str.strip\<close>, \<^verbatim>\<open>str.isspace\<close> and the pattern \<^verbatim>\<open>\s\<close> see it, below
  U+0100: tab to carriage return, the four separators U+001C .. U+001F, the blank, NEL
  and the no-break space.\<close>

definition is_space :: "char \<Rightarrow> bool" where
  "is_space c = (let n = (of_char c :: nat) in
     (9 \<le> n \<and> n \<le> 13) \<or> (28 \<le> n \<and> n \<le> 32) \<or> n = 133 \<or> n = 160)"

definition rstrip :: "string \<Rightarrow> string" where
  "rstrip s = rev (dropWhile is_space (rev s))"

definition strip :: "string \<Rightarrow> string" where
  "strip s = rstrip (dropWhile is_space s)"

text \<open>\<^verbatim>\<open>str.isdigit\<close>: not empty, and every character has the Unicode property of a digit.
  Below U+0100 these are 0 .. 9 and the superscripts two, three and one (U+00B2, U+00B3,
  U+00B9).  \<^verbatim>\<open>int(s)\<close> reads decimal digits only: on a superscript it raises ValueError.\<close>

definition is_decimal_char :: "char \<Rightarrow> bool" where
  "is_decimal_char c = (let n = (of_char c :: nat) in 48 \<le> n \<and> n \<le> 57)"

definition is_digit_char :: "char \<Rightarrow> bool" where
  "is_digit_char c = (let n = (of_char c :: nat) in
     (48 \<le> n \<and> n \<le> 57) \<or> n = 178 \<or> n = 179 \<or> n = 185)"

definition isdigit :: "string \<Rightarrow> bool" where
  "isdigit s = (s \<noteq> [] \<and> list_all is_digit_char s)"

definition digits_value :: "string \<Rightarrow> int" where
  "digits_value s = foldl (\<lambda>acc c. 10 * acc + (int (of_char c) - 48)) 0 s"

text \<open>\<^verbatim>\<open>int(s)\<close> for a string that passed \<^verbatim>\<open>isdigit\<close> (so no sign, blank or underscore is
  in it).  The interpreter's configurable ceiling on the length of a decimal string (4300
  digits by default from Python 3.11 on) is left out.\<close>

definition py_int_of_digits :: "string \<Rightarrow> error + int" where
  "py_int_of_digits s = (if list_all is_decimal_char s then Inr (digits_value s) else Inl ValueError)"

text \<open>Decimal text of a number, as \<^verbatim>\<open>str(i)\<close> and an f-string print it.\<close>

definition digit_char :: "nat \<Rightarrow> char" where
  "digit_char d = char_of (48 + d)"

fun show_nat :: "nat \<Rightarrow> string" where
  "show_nat n = (if n < 10 then [digit_char n] else show_nat (n div 10) @ [digit_char (n mod 10)])"

declare show_nat.simps [simp del]

definition show_int :: "int \<Rightarrow> string" where
  "show_int i = (if i < 0 then CHR ''-'' # show_nat (nat (- i)) else show_nat (nat i))"

section \<open>The history tail\<close>

text \<open>\<^verbatim>\<open>msgs[-n:]\<close>: a negative start counts from the end and is cut at the first element,
  a start beyond the end gives the empty list; \<^verbatim>\<open>-0\<close> is \<^verbatim>\<open>0\<close>, the whole list.\<close>

definition slice_from :: "'a list \<Rightarrow> int \<Rightarrow> 'a list" where
  "slice_from xs start =
     (let len = int (length xs);
          lo = (if start < 0 then max (len + start) 0 else min start len)
      in drop (nat lo) xs)"

definition history_roles :: "pyval list" where
  "history_roles = [PStr ''system'', PStr ''user'', PStr ''assistant'']"

text \<open>One turn of the loop of \<^verbatim>\<open>_tail_messages\<close>: the entry appended for \<open>m\<close>, if any.\<close>

fun tail_entry :: "pyval \<Rightarrow> pyval option" where
  "tail_entry (PDict m) =
     (if dict_get m ''role'' PNone \<in> set history_roles
      then Some (PDict [(''role'', dict_get m ''role'' PNone),
                        (''content'', dict_get m ''content'' (PStr ''''))])
      else None)"
| "tail_entry _ = None"

fun tail_loop :: "pyval list \<Rightarrow> pyval list" where
  "tail_loop [] = []"
| "tail_loop (m # ms) =
     (case tail_entry m of Some e \<Rightarrow> e # tail_loop ms | None \<Rightarrow> tail_loop ms)"

definition tail_messages :: "pyval list \<Rightarrow> int \<Rightarrow> pyval list" where
  "tail_messages msgs n = tail_loop (slice_from msgs (- n))"


text \<open>Lines 173 to 178 of \<^verbatim>\<open>subquery\<close>: the conversation the first round starts from.
  \<open>msgs\<close> is \<^verbatim>\<open>__messages__\<close>, \<open>None\<close> when the host passed none.\<close>

definition user_message :: "string \<Rightarrow> pyval" where
  "user_message prompt = PDict [(''role'', PStr ''user''), (''content'', PStr prompt)]"

definition history_part :: "int \<Rightarrow> pyval list option \<Rightarrow> pyval list" where
  "history_part include_recent_messages msgs =
     (case msgs of
        None \<Rightarrow> []
      | Some ms \<Rightarrow>
          if include_recent_messages \<noteq> 0 \<and> ms \<noteq> []
          then tail_messages ms include_recent_messages else [])"

definition initial_messages :: "string \<Rightarrow> int \<Rightarrow> pyval list option \<Rightarrow> pyval list" where
  "initial_messages prompt include_recent_messages msgs =
     history_part include_recent_messages msgs @ [user_message prompt]"

section \<open>Normalising tool calls\<close>

text \<open>Lines 53 to 57 of \<^verbatim>\<open>_normalize_tool_calls\<close>: the index stored for the entry at
  position \<open>i\<close> whose \<^verbatim>\<open>tc.get("index", i)\<close> is \<open>idx\<close>.\<close>

fun resolve_index :: "nat \<Rightarrow> pyval \<Rightarrow> error + pyval" where
  "resolve_index i (PStr s) =
     (if isdigit s then and_then (py_int_of_digits s) (\<lambda>v. Inr (PInt v))
      else Inr (PInt (int i)))"
| "resolve_index i (PInt v) = Inr (PInt v)"
| "resolve_index i (PBool b) = Inr (PBool b)"
| "resolve_index i _ = Inr (PInt (int i))"

text \<open>The loop over \<^verbatim>\<open>enumerate(tool_calls)\<close>, from position \<open>i\<close> on.\<close>

fun normalize_from :: "nat \<Rightarrow> pyval list \<Rightarrow> error + pyval list" where
  "normalize_from i [] = Inr []"
| "normalize_from i (PDict tc # rest) =
     and_then (resolve_index i (dict_get tc ''index'' (PInt (int i)))) (\<lambda>idx.
     and_then (normalize_from (Suc i) rest) (\<lambda>out.
       Inr (PDict (dict_set ''index'' idx tc) # out)))"
| "normalize_from i (_ # rest) = normalize_from (Suc i) rest"

definition normalize_tool_calls :: "pyval list \<Rightarrow> error + pyval list" where
  "normalize_tool_calls tool_calls = normalize_from 0 tool_calls"

section \<open>Plain-text tool calls\<close>

text \<open>Lower case of a character below U+0100 (\<^verbatim>\<open>str.lower\<close>, and the case folding of a
  pattern compiled with \<^verbatim>\<open>re.IGNORECASE\<close>): the letters A .. Z and U+00C0 .. U+00DE but the
  multiplication sign move up by 32.\<close>

definition lower_char :: "char \<Rightarrow> char" where
  "lower_char c = (let n = (of_char c :: nat) in
     if (65 \<le> n \<and> n \<le> 90) \<or> (192 \<le> n \<and> n \<le> 222 \<and> n \<noteq> 215) then char_of (n + 32) else c)"

text \<open>\<^verbatim>\<open>p in s\<close> and \<^verbatim>\<open>s.split(p, 1)[0]\<close> for strings, both exact in letter case.\<close>

definition starts_with :: "string \<Rightarrow> string \<Rightarrow> bool" where
  "starts_with p s = (take (length p) s = p)"

fun contains :: "string \<Rightarrow> string \<Rightarrow> bool" where
  "contains p [] = (p = [])"
| "contains p (c # cs) = (starts_with p (c # cs) \<or> contains p cs)"

fun before_first :: "string \<Rightarrow> string \<Rightarrow> string" where
  "before_first p [] = []"
| "before_first p (c # cs) = (if starts_with p (c # cs) then [] else c # before_first p cs)"

text \<open>The pattern \<^verbatim>\<open><TAG=([^>\s]+)>(.*?)</TAG>\<close> under \<^verbatim>\<open>re.DOTALL | re.IGNORECASE\<close>, for
  \<^verbatim>\<open>TAG\<close> one of \<^verbatim>\<open>function\<close> and \<^verbatim>\<open>parameter\<close>.

  \<open>skip_ci p s\<close> matches the literal \<open>p\<close> (written in lower case) at the start of \<open>s\<close>
  whatever the case of \<open>s\<close>, and returns what follows.  \<open>until_ci p s\<close> is the lazy
  \<^verbatim>\<open>(.*?)\<close> followed by the literal \<open>p\<close>: the shortest text, line breaks included, after
  which \<open>p\<close> matches.  The name is the longest run of characters that are neither
  \<^verbatim>\<open>>\<close> nor white space; the character after it has to be \<^verbatim>\<open>>\<close>, and giving back part
  of the run cannot help, since no character of the run is \<^verbatim>\<open>>\<close>.\<close>

fun skip_ci :: "string \<Rightarrow> string \<Rightarrow> string option" where
  "skip_ci [] s = Some s"
| "skip_ci (p # ps) [] = None"
| "skip_ci (p # ps) (c # cs) = (if lower_char c = p then skip_ci ps cs else None)"

fun until_ci :: "string \<Rightarrow> string \<Rightarrow> (string \<times> string) option" where
  "until_ci p [] = (case skip_ci p [] of Some r \<Rightarrow> Some ([], r) | None \<Rightarrow> None)"
| "until_ci p (c # cs) =
     (case skip_ci p (c # cs) of
        Some r \<Rightarrow> Some ([], r)
      | None \<Rightarrow> (case until_ci p cs of Some (body, r) \<Rightarrow> Some (c # body, r) | None \<Rightarrow> None))"

definition name_char :: "char \<Rightarrow> bool" where
  "name_char c = (c \<noteq> CHR ''>'' \<and> \<not> is_space c)"

text \<open>One attempt of the pattern at the start of \<open>s\<close>: the two groups and the text after
  the match.\<close>

definition match_block :: "string \<Rightarrow> string \<Rightarrow> (string \<times> string \<times> string) option" where
  "match_block tag s =
     (case skip_ci (''<'' @ tag @ ''='') s of
        None \<Rightarrow> None
      | Some r \<Rightarrow>
          (let name = takeWhile name_char r in
           if name = [] then None
           else (case dropWhile name_char r of
                   [] \<Rightarrow> None
                 | c # r' \<Rightarrow>
                     if c = CHR ''>''
                     then (case until_ci (''</'' @ tag @ ''>'') r' of
                             None \<Rightarrow> None
                           | Some (body, rest) \<Rightarrow> Some (name, body, rest))
                     else None)))"

lemma skip_ci_length: "skip_ci p s = Some r \<Longrightarrow> length r + length p = length s"
  by (induction p s rule: skip_ci.induct) (auto split: if_splits)

lemma until_ci_length: "until_ci p s = Some (body, r) \<Longrightarrow> length r \<le> length s"
  by (induction p s arbitrary: body rule: until_ci.induct)
     (auto split: option.splits dest: skip_ci_length)

lemma match_block_shorter:
  assumes "match_block tag s = Some (name, body, rest)"
  shows "length rest < length s"
proof -
  from assms obtain r c r' where
    r: "skip_ci (''<'' @ tag @ ''='') s = Some r" and
    d: "dropWhile name_char r = c # r'" and
    u: "until_ci (''</'' @ tag @ ''>'') r' = Some (body, rest)"
    by (auto simp: match_block_def Let_def split: option.splits list.splits if_splits)
  have "length (dropWhile name_char r) \<le> length r"
    by (rule length_dropWhile_le)
  with d have "length r' < length r" by simp
  moreover from u have "length rest \<le> length r'" by (rule until_ci_length)
  moreover from r have "length r \<le> length s" by (auto dest: skip_ci_length)
  ultimately show ?thesis by simp
qed

text \<open>\<^verbatim>\<open>re.findall\<close>: the matches from left to right, the search going on where a match
  ended and, where the pattern fails, one character further.\<close>

function findall_blocks :: "string \<Rightarrow> string \<Rightarrow> (string \<times> string) list" where
  "findall_blocks tag [] = []"
| "findall_blocks tag (c # cs) =
     (case match_block tag (c # cs) of
        Some (name, body, rest) \<Rightarrow> (name, body) # findall_blocks tag rest
      | None \<Rightarrow> findall_blocks tag cs)"
  by pat_completeness auto
termination
  by (relation "measure (\<lambda>(tag, s). length s)") (auto dest: match_block_shorter)

section \<open>JSON text\<close>

text \<open>\<^verbatim>\<open>json.dumps(x, ensure_ascii=False)\<close>.  In a string the quote and the backslash get
  a backslash, the control characters below U+0020 their short escape or \<^verbatim>\<open>\u00XX\<close>,
  and every other character is written as it is.\<close>

definition hex_digit :: "nat \<Rightarrow> char" where
  "hex_digit d = (if d < 10 then char_of (48 + d) else char_of (87 + d))"

definition json_escape_char :: "char \<Rightarrow> string" where
  "json_escape_char c = (let n = (of_char c :: nat) in
     if n = 34 then [CHR 0x5C, CHR 0x22]
     else if n = 92 then [CHR 0x5C, CHR 0x5C]
     else if n = 10 then [CHR 0x5C, CHR ''n'']
     else if n = 13 then [CHR 0x5C, CHR ''r'']
     else if n = 9 then [CHR 0x5C, CHR ''t'']
     else if n = 8 then [CHR 0x5C, CHR ''b'']
     else if n = 12 then [CHR 0x5C, CHR ''f'']
     else if n < 32 then [CHR 0x5C, CHR ''u'', CHR ''0'', CHR ''0'', hex_digit (n div 16), hex_digit (n mod 16)]
     else [c])"

definition json_string :: "string \<Rightarrow> string" where
  "json_string s = [CHR 0x22] @ concat (map json_escape_char s) @ [CHR 0x22]"

definition json_float :: "string \<Rightarrow> string" where
  "json_float r =
     (if r = ''nan'' then ''NaN'' else if r = ''inf'' then ''Infinity''
      else if r = ''-inf'' then ''-Infinity'' else r)"

fun join :: "string \<Rightarrow> string list \<Rightarrow> string" where
  "join sep [] = []"
| "join sep [x] = x"
| "join sep (x # y # ys) = x @ sep @ join sep (y # ys)"

text \<open>What the encoder can write: a host object anywhere inside makes it raise TypeError.\<close>

fun json_serializable :: "pyval \<Rightarrow> bool" where
  "json_serializable (PObj _) = False"
| "json_serializable (PList xs) = list_all json_serializable xs"
| "json_serializable (PDict d) = list_all json_serializable (map snd d)"
| "json_serializable _ = True"

fun json_text :: "pyval \<Rightarrow> string" where
  "json_text PNone = ''null''"
| "json_text (PBool b) = (if b then ''true'' else ''false'')"
| "json_text (PInt i) = show_int i"
| "json_text (PFloat r) = json_float r"
| "json_text (PStr s) = json_string s"
| "json_text (PList xs) = ''['' @ join '', '' (map json_text xs) @ '']''"
| "json_text (PDict d) =
     ''{'' @ join '', '' (map (\<lambda>kv. json_string (fst kv) @ '': '' @ json_text (snd kv)) d) @ ''}''"
| "json_text (PObj _) = []"

definition json_dumps :: "pyval \<Rightarrow> error + string" where
  "json_dumps x = (if json_serializable x then Inr (json_text x) else Inl TypeError)"

section \<open>Extracting tool calls from text\<close>

definition call_marker :: string where
  "call_marker = ''<function=''"

text \<open>Lines 75 to 82 of \<^verbatim>\<open>_extract_text_tool_calls\<close>: the arguments of one block.  A
  parameter named twice keeps the place of its first value and the text of its last.\<close>

definition block_args :: "string \<Rightarrow> pydict" where
  "block_args body =
     fold (\<lambda>(k, v) args. dict_set (strip k) (PStr (strip v)) args)
          (findall_blocks ''parameter'' body) []"

text \<open>Lines 84 to 94: the call appended for block number \<open>i\<close>.  The arguments are strings
  under string keys, which the encoder always writes.\<close>

definition text_call :: "nat \<Rightarrow> string \<Rightarrow> string \<Rightarrow> pyval" where
  "text_call i name body =
     PDict [(''index'', PInt (int i)),
            (''id'', PStr (''call_text_'' @ show_nat i)),
            (''type'', PStr ''function''),
            (''function'', PDict [(''name'', PStr (strip name)),
                                 (''arguments'', PStr (json_text (PDict (block_args body))))])]"

fun text_calls_from :: "nat \<Rightarrow> (string \<times> string) list \<Rightarrow> pyval list" where
  "text_calls_from i [] = []"
| "text_calls_from i ((name, body) # blocks) = text_call i name body # text_calls_from (Suc i) blocks"

definition extract_text_tool_calls :: "string \<Rightarrow> pyval list" where
  "extract_text_tool_calls content =
     (if content = [] \<or> \<not> contains call_marker content then []
      else text_calls_from 0 (findall_blocks ''function'' content))"

section \<open>Collaborators and arguments\<close>

text \<open>A tool of the registry: the parameter names \<^verbatim>\<open>inspect.signature\<close> reports, whether
  one of them is a \<^verbatim>\<open>**kwargs\<close>, and what calling it (and awaiting the result, if it is
  awaitable) gives for a keyword mapping.  A tool is taken to answer as a function of that
  mapping; one that changes the list it is handed as \<^verbatim>\<open>__messages__\<close>, which is the
  conversation itself, is outside the model.  An entry of the registry is taken to be true
  in a truth test, as a dictionary holding a callable is.\<close>

record tool =
  parameters :: "string list"
  var_keyword :: bool
  invoke :: "pydict \<Rightarrow> error + pyval"

type_synonym registry = "string \<Rightarrow> tool option"

text \<open>What the notification sink is sent.  The phrase around a status is drawn at random
  from a fixed list and the tool names are title-cased for display; the model keeps the
  kind of the notification and the names.\<close>

datatype event =
    Status_started
  | Status_tools "string list"
  | Status_done
  | Message_error error

text \<open>The services the module calls: the completion endpoint (its answer may change
  from one round to the next, so the round number is passed along), the tool resolver, the
  JSON decoder and the constructor of the host's user object.\<close>

record world =
  chat_completion :: "nat \<Rightarrow> pyval \<Rightarrow> error + pyval"
  get_tools :: "string list \<Rightarrow> error + registry"
  json_loads :: "string \<Rightarrow> error + pyval"
  make_user :: "pyval \<Rightarrow> error + pyval"

text \<open>The arguments of \<^verbatim>\<open>subquery\<close>.  \<open>PNone\<close> is Python's \<^verbatim>\<open>None\<close>; a sink that is
  present answers each notification with the exception it raises, if any.\<close>

record arguments =
  prompt :: string
  include_recent_messages :: int
  user_arg :: pyval
  metadata_arg :: pyval
  messages_arg :: "pyval list option"
  files_arg :: pyval
  model_arg :: pyval
  request_arg :: pyval
  event_emitter :: "(event \<Rightarrow> error option) option"

definition emit :: "(event \<Rightarrow> error option) option \<Rightarrow> event \<Rightarrow> error + unit" where
  "emit sink ev =
     (case sink of
        None \<Rightarrow> Inr ()
      | Some f \<Rightarrow> (case f ev of None \<Rightarrow> Inr () | Some e \<Rightarrow> Inl e))"

definition emitter_value :: "(event \<Rightarrow> error option) option \<Rightarrow> pyval" where
  "emitter_value sink = (case sink of None \<Rightarrow> PNone | Some _ \<Rightarrow> PObj ''__event_emitter__'')"

section \<open>Choosing the calls of a round\<close>

text \<open>Iterating a value (\<^verbatim>\<open>enumerate(x)\<close>, \<^verbatim>\<open>dict(x)\<close>): a list gives its elements, a
  string its characters, a dictionary its keys; nothing else here can be iterated.\<close>

fun iterate :: "pyval \<Rightarrow> error + pyval list" where
  "iterate (PList xs) = Inr xs"
| "iterate (PStr s) = Inr (map (\<lambda>c. PStr [c]) s)"
| "iterate (PDict d) = Inr (map (\<lambda>kv. PStr (fst kv)) d)"
| "iterate _ = Inl TypeError"

text \<open>\<^verbatim>\<open>_normalize_tool_calls\<close> on whatever the response holds under \<^verbatim>\<open>tool_calls\<close>.\<close>

definition normalize_value :: "pyval \<Rightarrow> error + pyval list" where
  "normalize_value tool_calls =
     and_then (iterate (py_or tool_calls (PList []))) normalize_tool_calls"

text \<open>\<^verbatim>\<open>_extract_text_tool_calls\<close> on whatever the response holds under \<^verbatim>\<open>content\<close>:
  \<^verbatim>\<open>not content or "<function=" not in content\<close> is a membership test on a list or a
  dictionary and raises on a number or an object; a list or a dictionary that does hold the
  marker reaches \<^verbatim>\<open>re.findall\<close>, which wants a string.\<close>

fun extract_value :: "pyval \<Rightarrow> error + pyval list" where
  "extract_value (PStr s) = Inr (extract_text_tool_calls s)"
| "extract_value (PList xs) =
     (if xs = [] \<or> PStr call_marker \<notin> set xs then Inr [] else Inl TypeError)"
| "extract_value (PDict d) =
     (if d = [] \<or> call_marker \<notin> set (map fst d) then Inr [] else Inl TypeError)"
| "extract_value v = (if truthy v then Inl TypeError else Inr [])"

text \<open>Lines 227 to 238.  The result tells whether the text of the response was searched
  for calls, the calls of the round, and the response message as it is used from there on.
  Calls are only ever found in a string, so \<^verbatim>\<open>content.split\<close> is a string's method.\<close>

record decision =
  text_searched :: bool
  calls :: "pyval list"
  message :: pyval

definition truncate_content :: "string \<Rightarrow> string" where
  "truncate_content content = rstrip (before_first call_marker content)"

definition decide_calls :: "pyval \<Rightarrow> error + decision" where
  "decide_calls msg =
     and_then (py_get msg ''tool_calls'' PNone) (\<lambda>tcs.
     and_then (normalize_value (py_or tcs (PList []))) (\<lambda>tool_calls.
       if tool_calls \<noteq> []
       then Inr \<lparr>text_searched = False, calls = tool_calls, message = msg\<rparr>
       else
         and_then (py_get msg ''content'' PNone) (\<lambda>c.
         and_then (extract_value (py_or c (PStr []))) (\<lambda>extracted.
         and_then (normalize_tool_calls extracted) (\<lambda>parsed.
           if parsed \<noteq> []
           then (case (msg, py_or c (PStr [])) of
                   (PDict m, PStr content) \<Rightarrow>
                     Inr \<lparr>text_searched = True, calls = parsed,
                          message = PDict (dict_set ''content'' (PStr (truncate_content content)) m)\<rparr>
                 | _ \<Rightarrow> Inl AttributeError)
           else Inr \<lparr>text_searched = True, calls = [], message = msg\<rparr>)))))"

section \<open>Dispatching a tool call\<close>

text \<open>\<^verbatim>\<open>_filter_kwargs_for_callable\<close>.\<close>

definition filter_kwargs_for_callable :: "tool \<Rightarrow> pydict \<Rightarrow> pydict" where
  "filter_kwargs_for_callable func kw =
     (if var_keyword func then kw else filter (\<lambda>kv. fst kv \<in> set (parameters func)) kw)"

text \<open>The context values of lines 334 to 345, in the order they are stored.  \<open>user\<close> is the
  host's user object, \<open>messages\<close> the conversation as it stands.\<close>

definition injected :: "arguments \<Rightarrow> pyval \<Rightarrow> pyval list \<Rightarrow> pydict" where
  "injected a user messages =
     [(''__user__'', user_arg a),
      (''user'', user),
      (''__metadata__'', metadata_arg a),
      (''__messages__'', PList messages),
      (''__files__'', files_arg a),
      (''__model__'', model_arg a),
      (''__request__'', request_arg a),
      (''__event_emitter__'', emitter_value (event_emitter a))]"


text \<open>\<^verbatim>\<open>dict(args)\<close> for a decoded value.  A dictionary is copied.  Any other value is
  iterated and each element has to give exactly two items, a key and a value; a key that is
  a list or a dictionary cannot be hashed.  A key that is not a string cannot be kept in a
  string-keyed mapping: the flag of the result records that there was one, since
  \<^verbatim>\<open>func(**kwargs)\<close> refuses such a key while the filter of a callable without
  \<^verbatim>\<open>**kwargs\<close> drops it.\<close>

fun pairs_into :: "pyval list \<Rightarrow> pydict \<times> bool \<Rightarrow> error + pydict \<times> bool" where
  "pairs_into [] acc = Inr acc"
| "pairs_into (x # xs) (d, other) =
     and_then (iterate x) (\<lambda>items.
       case items of
         [k, v] \<Rightarrow>
           (case k of
              PStr key \<Rightarrow> pairs_into xs (dict_set key v d, other)
            | PList _ \<Rightarrow> Inl TypeError
            | PDict _ \<Rightarrow> Inl TypeError
            | _ \<Rightarrow> pairs_into xs (d, True))
       | _ \<Rightarrow> Inl ValueError)"

fun py_dict :: "pyval \<Rightarrow> error + pydict \<times> bool" where
  "py_dict (PDict d) = Inr (d, False)"
| "py_dict v = and_then (iterate v) (\<lambda>xs. pairs_into xs ([], False))"

text \<open>\<^verbatim>\<open>s.strip()\<close> on a value: a string's method.\<close>

fun py_strip :: "pyval \<Rightarrow> error + string" where
  "py_strip (PStr s) = Inr (strip s)"
| "py_strip _ = Inl AttributeError"

text \<open>\<^verbatim>\<open>tools_registry.get(name)\<close>: the registry is keyed by strings, a list or a
  dictionary cannot be hashed, and no other value is a key of it.\<close>

fun lookup_tool :: "registry \<Rightarrow> pyval \<Rightarrow> error + tool option" where
  "lookup_tool reg (PStr n) = Inr (reg n)"
| "lookup_tool reg (PList _) = Inl TypeError"
| "lookup_tool reg (PDict _) = Inl TypeError"
| "lookup_tool reg _ = Inr None"

text \<open>The name inside the f-string of line 325.  A list or a dictionary never gets
  there: looking it up has raised.\<close>

fun printed :: "pyval \<Rightarrow> string" where
  "printed (PStr s) = s"
| "printed PNone = ''None''"
| "printed (PBool b) = (if b then ''True'' else ''False'')"
| "printed (PInt i) = show_int i"
| "printed (PFloat r) = r"
| "printed (PObj l) = l"
| "printed (PList _) = []"
| "printed (PDict _) = []"

definition not_found_notice :: "pyval \<Rightarrow> string" where
  "not_found_notice name = ''Tool '' @ [CHR 0x27] @ printed name @ [CHR 0x27] @ '' not found''"

definition tool_message :: "pyval \<Rightarrow> pyval \<Rightarrow> string \<Rightarrow> pyval" where
  "tool_message tc_id name content =
     PDict [(''role'', PStr ''tool''), (''tool_call_id'', tc_id), (''name'', name),
            (''content'', PStr content)]"

definition call_name :: "pyval \<Rightarrow> error + pyval" where
  "call_name tc = and_then (item_str tc ''function'') (\<lambda>f. item_str f ''name'')"

text \<open>Lines 330 to 351: the keyword mapping the callable is given.\<close>

definition call_kwargs :: "pydict \<Rightarrow> arguments \<Rightarrow> pyval \<Rightarrow> pyval list \<Rightarrow> pydict" where
  "call_kwargs args a user messages = dict_update args (injected a user messages)"

text \<open>Lines 360 to 364: a string is kept, anything else is encoded.\<close>

definition serialize_result :: "pyval \<Rightarrow> error + string" where
  "serialize_result result = (case result of PStr s \<Rightarrow> Inr s | _ \<Rightarrow> json_dumps result)"

text \<open>Line 331: \<^verbatim>\<open>json.loads(args_raw) if args_raw.strip() else {}\<close>.\<close>

definition decode_arguments :: "world \<Rightarrow> pyval \<Rightarrow> error + pyval" where
  "decode_arguments w args_raw =
     (case args_raw of
        PStr s \<Rightarrow> if strip s \<noteq> [] then json_loads w s else Inr (PDict [])
      | _ \<Rightarrow> Inl AttributeError)"

text \<open>Lines 333 to 353: the call itself.\<close>

definition call_tool ::
  "tool \<Rightarrow> pydict \<times> bool \<Rightarrow> arguments \<Rightarrow> pyval \<Rightarrow> pyval list \<Rightarrow> error + pyval" where
  "call_tool func parsed a user messages =
     (if snd parsed \<and> var_keyword func then Inl TypeError
      else invoke func
             (filter_kwargs_for_callable func (call_kwargs (fst parsed) a user messages)))"

text \<open>One turn of the loop of lines 313 to 366: the conversation after the call \<open>tc\<close>.\<close>

definition dispatch_call ::
  "world \<Rightarrow> registry \<Rightarrow> arguments \<Rightarrow> pyval \<Rightarrow> pyval \<Rightarrow> pyval list \<Rightarrow> error + pyval list" where
  "dispatch_call w reg a user tc messages =
     and_then (call_name tc) (\<lambda>name.
     and_then (item_str tc ''function'') (\<lambda>f.
     and_then (py_get f ''arguments'' (PStr [])) (\<lambda>raw.
     and_then (py_get tc ''id'' (PStr [])) (\<lambda>tc_id.
     and_then (lookup_tool reg name) (\<lambda>entry.
       (case entry of
          None \<Rightarrow> Inr (messages @ [tool_message tc_id name (not_found_notice name)])
        | Some func \<Rightarrow>
            and_then (decode_arguments w (py_or raw (PStr []))) (\<lambda>args.
            and_then (py_dict args) (\<lambda>parsed.
            and_then (call_tool func parsed a user messages) (\<lambda>result.
            and_then (serialize_result result) (\<lambda>content.
              Inr (messages @ [tool_message tc_id name content])))))))))))"

fun dispatch_all ::
  "world \<Rightarrow> registry \<Rightarrow> arguments \<Rightarrow> pyval \<Rightarrow> pyval list \<Rightarrow> pyval list \<Rightarrow> error + pyval list" where
  "dispatch_all w reg a user [] messages = Inr messages"
| "dispatch_all w reg a user (tc # tcs) messages =
     and_then (dispatch_call w reg a user tc messages) (dispatch_all w reg a user tcs)"

section \<open>The orchestration loop\<close>

text \<open>Lines 181 to 197: the parameters sent with every completion request and the tool
  identifiers inherited from the parent session, this tool's own left out.\<close>

definition build_params :: "pyval \<Rightarrow> pydict" where
  "build_params metadata =
     dict_set ''function_calling'' (PStr ''native'')
       (case metadata of
          PDict md \<Rightarrow>
            (case py_or (dict_get md ''params'' PNone) (PDict []) of
               PDict meta_params \<Rightarrow> dict_update [] meta_params
             | _ \<Rightarrow> [])
        | _ \<Rightarrow> [])"

definition inherited_tool_ids :: "pyval \<Rightarrow> pyval" where
  "inherited_tool_ids metadata =
     (case metadata of PDict md \<Rightarrow> dict_get md ''tool_ids'' PNone | _ \<Rightarrow> PNone)"

fun keep_tool_id :: "pyval \<Rightarrow> bool" where
  "keep_tool_id (PStr t) = (map lower_char t \<noteq> ''subquery'')"
| "keep_tool_id _ = False"

definition select_tool_ids :: "pyval \<Rightarrow> pyval list option" where
  "select_tool_ids inherited =
     (case inherited of PList ts \<Rightarrow> Some (filter keep_tool_id ts) | _ \<Rightarrow> None)"

fun tool_id_text :: "pyval \<Rightarrow> string" where
  "tool_id_text (PStr t) = t"
| "tool_id_text _ = []"

text \<open>What is fixed before the first round: the selected tool identifiers, the registry
  resolved for them, the parameters, the model identifier and the host's user object.\<close>

record session =
  tool_ids :: "pyval list option"
  tools_registry :: registry
  params :: pydict
  model_id :: pyval
  user :: pyval

text \<open>The request of lines 213 to 220: \<^verbatim>\<open>files\<close> and \<^verbatim>\<open>tool_ids\<close> are sent only when
  they are not empty.\<close>

definition completion_request :: "arguments \<Rightarrow> session \<Rightarrow> pyval list \<Rightarrow> pyval" where
  "completion_request a ss messages =
     PDict ([(''model'', model_id ss),
             (''messages'', PList messages),
             (''stream'', PBool False),
             (''params'', PDict (params ss))]
            @ (if truthy (files_arg a) then [(''files'', files_arg a)] else [])
            @ (case tool_ids ss of
                 Some (t # ts) \<Rightarrow> [(''tool_ids'', PList (t # ts))]
               | _ \<Rightarrow> []))"

text \<open>Lines 266 to 301: with a sink and two calls or more, the names are collected
  (\<^verbatim>\<open>tc["function"]["name"]\<close>), made readable (\<^verbatim>\<open>name.replace\<close>, a string's method)
  and sent.\<close>

fun names_of :: "pyval list \<Rightarrow> error + pyval list" where
  "names_of [] = Inr []"
| "names_of (tc # tcs) =
     and_then (call_name tc) (\<lambda>n. and_then (names_of tcs) (\<lambda>ns. Inr (n # ns)))"

fun readable_names :: "pyval list \<Rightarrow> error + string list" where
  "readable_names [] = Inr []"
| "readable_names (PStr n # ns) = and_then (readable_names ns) (\<lambda>rs. Inr (n # rs))"
| "readable_names (_ # ns) = Inl AttributeError"

definition announce :: "(event \<Rightarrow> error option) option \<Rightarrow> pyval list \<Rightarrow> error + unit" where
  "announce sink tool_calls =
     (if sink \<noteq> None \<and> 2 \<le> length tool_calls
      then and_then (names_of tool_calls) (\<lambda>names.
           and_then (readable_names names) (\<lambda>readable.
             emit sink (Status_tools readable)))
      else Inr ())"

definition assistant_message :: "pyval \<Rightarrow> pyval list \<Rightarrow> pyval" where
  "assistant_message content tool_calls =
     PDict [(''role'', PStr ''assistant''), (''content'', content),
            (''tool_calls'', PList tool_calls)]"

text \<open>One round, lines 211 to 366: either the answer is returned or the conversation
  goes on, longer by the assistant's request and one reply for each call.\<close>

datatype step = Done string | Next "pyval list"

definition round_body ::
  "world \<Rightarrow> arguments \<Rightarrow> session \<Rightarrow> nat \<Rightarrow> pyval list \<Rightarrow> error + step" where
  "round_body w a ss round_num messages =
     and_then (chat_completion w round_num (completion_request a ss messages)) (\<lambda>data.
     and_then (item_str data ''choices'') (\<lambda>choices.
     and_then (item_first choices) (\<lambda>choice.
     and_then (item_str choice ''message'') (\<lambda>msg.
     and_then (decide_calls msg) (\<lambda>dec.
       if calls dec = []
       then
         and_then (emit (event_emitter a) Status_done) (\<lambda>_.
         and_then (py_get (message dec) ''content'' PNone) (\<lambda>c.
         and_then (py_strip (py_or c (PStr []))) (\<lambda>answer.
           Inr (Done answer))))
       else
         and_then (announce (event_emitter a) (calls dec)) (\<lambda>_.
         and_then (py_get (message dec) ''content'' PNone) (\<lambda>c.
         and_then (dispatch_all w (tools_registry ss) a (user ss) (calls dec)
                     (messages @ [assistant_message (py_or c (PStr [])) (calls dec)])) (\<lambda>messages'.
           Inr (Next messages')))))))))"

definition round_limit_error :: "int \<Rightarrow> error" where
  "round_limit_error max_rounds =
     RuntimeError (''[Subquery] exceeded max_rounds='' @ show_int max_rounds)"

text \<open>The loop \<^verbatim>\<open>for round_num in range(self.max_rounds)\<close> with \<open>left\<close> rounds to go, and
  the \<^verbatim>\<open>raise\<close> after it.  The number returned with the outcome is the number of rounds
  that were started, that is, of completion requests made.\<close>

fun rounds ::
  "world \<Rightarrow> arguments \<Rightarrow> session \<Rightarrow> int \<Rightarrow> nat \<Rightarrow> nat \<Rightarrow> pyval list \<Rightarrow> nat \<times> (error + string)" where
  "rounds w a ss max_rounds 0 round_num messages = (round_num, Inl (round_limit_error max_rounds))"
| "rounds w a ss max_rounds (Suc left) round_num messages =
     (case round_body w a ss round_num messages of
        Inl e \<Rightarrow> (Suc round_num, Inl e)
      | Inr (Done answer) \<Rightarrow> (Suc round_num, Inr answer)
      | Inr (Next messages') \<Rightarrow> rounds w a ss max_rounds left (Suc round_num) messages')"

text \<open>Lines 160 to 207: the checks on the injected values and the set-up of the session.\<close>

definition model_ok :: "pyval \<Rightarrow> bool" where
  "model_ok m = (case m of PDict d \<Rightarrow> d \<noteq> [] \<and> truthy (dict_get d ''id'' PNone) | _ \<Rightarrow> False)"

definition check_injected :: "arguments \<Rightarrow> error + unit" where
  "check_injected a =
     (if request_arg a = PNone then Inl (RuntimeError ''[Subquery] __request__ was not injected'')
      else if user_arg a = PNone then Inl (RuntimeError ''[Subquery] __user__ was not injected'')
      else if \<not> model_ok (model_arg a)
      then Inl (RuntimeError ''[Subquery] could not determine current model id from __model__'')
      else Inr ())"

definition resolve_registry :: "world \<Rightarrow> pyval list option \<Rightarrow> error + registry" where
  "resolve_registry w ids =
     (case ids of
        Some (t # ts) \<Rightarrow> get_tools w (map tool_id_text (t # ts))
      | _ \<Rightarrow> Inr (\<lambda>_. None))"

definition open_session :: "world \<Rightarrow> arguments \<Rightarrow> error + session" where
  "open_session w a =
     and_then (check_injected a) (\<lambda>_.
     and_then (make_user w (user_arg a)) (\<lambda>u.
     and_then (item_str (model_arg a) ''id'') (\<lambda>mid.
     and_then (resolve_registry w (select_tool_ids (inherited_tool_ids (metadata_arg a)))) (\<lambda>reg.
       Inr \<lparr>tool_ids = select_tool_ids (inherited_tool_ids (metadata_arg a)),
            tools_registry = reg,
            params = build_params (metadata_arg a),
            model_id = mid,
            user = u\<rparr>))))"

text \<open>The body of the \<^verbatim>\<open>try\<close>, lines 138 to 368.\<close>

definition attempt :: "world \<Rightarrow> int \<Rightarrow> arguments \<Rightarrow> nat \<times> (error + string)" where
  "attempt w max_rounds a =
     (case and_then (emit (event_emitter a) Status_started) (\<lambda>_. open_session w a) of
        Inl e \<Rightarrow> (0, Inl e)
      | Inr ss \<Rightarrow>
          rounds w a ss max_rounds (nat max_rounds) 0
            (initial_messages (prompt a) (include_recent_messages a) (messages_arg a)))"

text \<open>\<^verbatim>\<open>Tools.subquery\<close> with \<^verbatim>\<open>self.max_rounds = max_rounds\<close>: an exception is reported to
  the sink, if there is one, and raised again; an exception of the sink itself takes its
  place.\<close>

definition subquery :: "world \<Rightarrow> int \<Rightarrow> arguments \<Rightarrow> nat \<times> (error + string)" where
  "subquery w max_rounds a =
     (case attempt w max_rounds a of
        (n, Inl e) \<Rightarrow>
          (case emit (event_emitter a) (Message_error e) of
             Inl e' \<Rightarrow> (n, Inl e')
           | Inr _ \<Rightarrow> (n, Inl e))
      | (n, Inr answer) \<Rightarrow> (n, Inr answer))"

text \<open>\<^verbatim>\<open>Tools.__init__\<close>: the round limit of a fresh instance.\<close>

definition default_max_rounds :: int where
  "default_max_rounds = 8"

section \<open>Properties of the history tail\<close>











text \<open>C10: with \<^verbatim>\<open>include_recent_messages = 0\<close> the conversation the first round starts from
  is the one user message holding the prompt, whatever the prior history is.\<close>

theorem default_conversation_is_the_prompt:
  "initial_messages p 0 prior = [PDict [(''role'', PStr ''user''), (''content'', PStr p)]]"
  by (simp add: initial_messages_def history_part_def user_message_def split: option.splits)

section \<open>Properties of the normaliser\<close>

lemma resolve_index_is_int: "resolve_index i v = Inr idx \<Longrightarrow> is_int idx"
  by (cases v) (auto simp: and_then_def split: if_splits sum.splits)

lemma resolve_index_keeps_int: "is_int idx \<Longrightarrow> resolve_index j idx = Inr idx"
  by (cases idx) auto

lemma dict_get_after_set: "dict_get (dict_set k v d) k dflt = v"
  by (simp add: dict_get_def dict_set_def update_conv')

lemma dict_set_twice: "dict_set k v (dict_set k v d) = dict_set k v d"
  by (simp add: dict_set_def)

text \<open>An entry as normalisation leaves it: a dictionary whose \<^verbatim>\<open>index\<close> is an \<^verbatim>\<open>int\<close>.\<close>

definition indexed_call :: "pyval \<Rightarrow> bool" where
  "indexed_call tc = (case tc of PDict d \<Rightarrow> (case map_of d ''index'' of Some idx \<Rightarrow> is_int idx | None \<Rightarrow> False) | _ \<Rightarrow> False)"

lemma normalize_from_indexed:
  "normalize_from i xs = Inr out \<Longrightarrow> list_all indexed_call out"
proof (induction i xs arbitrary: out rule: normalize_from.induct)
  case (2 i tc rest)
  then show ?case
    by (auto simp: and_then_def indexed_call_def dict_set_def update_conv'
        dest: resolve_index_is_int split: sum.splits)
qed simp_all

lemma normalize_from_fixed:
  "normalize_from i xs = Inr out \<Longrightarrow> normalize_from j out = Inr out"
proof (induction i xs arbitrary: out j rule: normalize_from.induct)
  case (2 i tc rest)
  then show ?case
    by (auto simp: and_then_def dict_get_after_set dict_set_twice resolve_index_keeps_int
        dest: resolve_index_is_int split: sum.splits)
qed simp_all

text \<open>No index of the list is a string that passes \<^verbatim>\<open>isdigit\<close> without being decimal.\<close>

fun plain_index :: "pyval \<Rightarrow> bool" where
  "plain_index (PDict d) =
     (case map_of d ''index'' of
        Some (PStr s) \<Rightarrow> isdigit s \<longrightarrow> list_all is_decimal_char s
      | _ \<Rightarrow> True)"
| "plain_index _ = True"

lemma resolve_index_plain:
  "plain_index (PDict d) \<Longrightarrow> \<exists>idx. resolve_index i (dict_get d ''index'' (PInt (int i))) = Inr idx"
  by (cases "dict_get d ''index'' (PInt (int i))")
     (auto simp: dict_get_def and_then_def py_int_of_digits_def split: option.splits)

lemma normalize_from_returns:
  "list_all plain_index xs \<Longrightarrow> \<exists>out. normalize_from i xs = Inr out"
proof (induction i xs rule: normalize_from.induct)
  case (2 i tc rest)
  from 2(2) have p: "plain_index (PDict tc)" and r: "list_all plain_index rest" by simp_all
  from resolve_index_plain [OF p] obtain idx where
    idx: "resolve_index i (dict_get tc ''index'' (PInt (int i))) = Inr idx" by blast
  from 2(1) [OF r] obtain out where "normalize_from (Suc i) rest = Inr out" by blast
  with idx show ?case by (simp add: and_then_def)
qed simp_all

lemma normalize_resolves_plain_indexes:
  "list_all plain_index tool_calls \<Longrightarrow>
     \<exists>out. normalize_tool_calls tool_calls = Inr out \<and> list_all indexed_call out"
  unfolding normalize_tool_calls_def
  using normalize_from_returns [of tool_calls 0] by (auto dest: normalize_from_indexed)

text \<open>C7: normalising the result of a normalisation gives that result again; where the first
  normalisation raises there is no result, and the composition raises the same exception.\<close>

theorem normalize_idempotent:
  "and_then (normalize_tool_calls tool_calls) normalize_tool_calls = normalize_tool_calls tool_calls"
  by (cases "normalize_tool_calls tool_calls")
     (auto simp: and_then_def normalize_tool_calls_def dest: normalize_from_fixed)

theorem normalize_idempotent_witness:
  "and_then (normalize_tool_calls [PStr ''junk'', PDict [(''index'', PStr ''07''), (''id'', PStr ''a'')], PDict [(''id'', PStr ''b'')]])
      normalize_tool_calls
   = Inr [PDict [(''index'', PInt 7), (''id'', PStr ''a'')], PDict [(''id'', PStr ''b''), (''index'', PInt 2)]]"
  using normalize_idempotent [of "[PStr ''junk'', PDict [(''index'', PStr ''07''), (''id'', PStr ''a'')], PDict [(''id'', PStr ''b'')]]"]
  by (simp add: normalize_tool_calls_def and_then_def dict_get_def dict_set_def isdigit_def
      is_digit_char_def py_int_of_digits_def is_decimal_char_def digits_value_def)

text \<open>C6 does not hold of the code: \<^verbatim>\<open>idx.isdigit()\<close> accepts the superscript two, which
  \<^verbatim>\<open>int(idx)\<close> refuses, so for the list \<^verbatim>\<open>[{"index": "\u00b2"}]\<close> normalisation raises instead
  of resolving the index (\<open>normalize_resolves_plain_indexes\<close> is what holds without such an
  index).\<close>

theorem normalize_raises_on_superscript_digit:
  "normalize_tool_calls [PDict [(''index'', PStr [CHR 0xB2])]] = Inl ValueError"
  by (simp add: normalize_tool_calls_def dict_get_def isdigit_def is_digit_char_def
      py_int_of_digits_def is_decimal_char_def and_then_def)

section \<open>Properties of text extraction and of the choice of calls\<close>

lemma starts_with_iff: "starts_with p s \<longleftrightarrow> (\<exists>ys. s = p @ ys)"
  unfolding starts_with_def
  by (metis append_eq_conv_conj append_take_drop_id)

lemma contains_iff: "contains p s \<longleftrightarrow> (\<exists>xs ys. s = xs @ p @ ys)"
proof (induction s)
  case Nil
  then show ?case by auto
next
  case (Cons c cs)
  show ?case
  proof
    assume "contains p (c # cs)"
    then consider "starts_with p (c # cs)" | "contains p cs" by auto
    then show "\<exists>xs ys. c # cs = xs @ p @ ys"
    proof cases
      case 1
      then obtain ys where "c # cs = p @ ys" by (auto simp: starts_with_iff)
      then have "c # cs = [] @ p @ ys" by simp
      then show ?thesis by blast
    next
      case 2
      with Cons obtain xs ys where "cs = xs @ p @ ys" by blast
      then have "c # cs = (c # xs) @ p @ ys" by simp
      then show ?thesis by blast
    qed
  next
    assume "\<exists>xs ys. c # cs = xs @ p @ ys"
    then obtain xs ys where e: "c # cs = xs @ p @ ys" by blast
    show "contains p (c # cs)"
    proof (cases xs)
      case Nil
      with e have "starts_with p (c # cs)" by (auto simp: starts_with_iff)
      then show ?thesis by simp
    next
      case (Cons x xs')
      with e have "cs = xs' @ p @ ys" by simp
      with Cons.IH have "contains p cs" by blast
      then show ?thesis by simp
    qed
  qed
qed

lemma before_first_prefix: "\<exists>t. s = before_first p s @ t"
  by (induction s) auto

lemma before_first_free: "p \<noteq> [] \<Longrightarrow> \<not> contains p (before_first p s)"
proof (induction s)
  case Nil
  then show ?case by simp
next
  case (Cons c cs)
  show ?case
  proof (cases "starts_with p (c # cs)")
    case True
    with Cons.prems show ?thesis by simp
  next
    case False
    have "\<not> starts_with p (c # before_first p cs)"
    proof
      assume "starts_with p (c # before_first p cs)"
      then obtain ys where "c # before_first p cs = p @ ys" by (auto simp: starts_with_iff)
      moreover obtain t where "cs = before_first p cs @ t" using before_first_prefix by blast
      ultimately have "c # cs = p @ (ys @ t)" by (metis append_Cons append_assoc)
      with False show False by (auto simp: starts_with_iff)
    qed
    with False Cons show ?thesis by simp
  qed
qed

lemma rstrip_prefix: "\<exists>t. s = rstrip s @ t"
proof -
  have "rev s = takeWhile is_space (rev s) @ dropWhile is_space (rev s)" by simp
  then have "s = rev (dropWhile is_space (rev s)) @ rev (takeWhile is_space (rev s))"
    by (metis rev_append rev_rev_ident)
  then show ?thesis unfolding rstrip_def by blast
qed

lemma contains_prefix: "contains p u \<Longrightarrow> contains p (u @ t)"
  unfolding contains_iff by (metis append_assoc)

lemma truncate_content_free: "\<not> contains call_marker (truncate_content content)"
proof
  assume c: "contains call_marker (truncate_content content)"
  obtain t where "before_first call_marker content = truncate_content content @ t"
    unfolding truncate_content_def using rstrip_prefix by blast
  with c have "contains call_marker (before_first call_marker content)"
    by (metis contains_prefix)
  then show False using before_first_free [of call_marker content] by (simp add: call_marker_def)
qed

lemma extract_fast_path: "\<not> contains call_marker content \<Longrightarrow> extract_text_tool_calls content = []"
  by (simp add: extract_text_tool_calls_def)

lemma normalize_from_keeps_dicts:
  "\<exists>tc \<in> set xs. is_dict tc \<Longrightarrow> normalize_from i xs = Inr out \<Longrightarrow> out \<noteq> []"
proof (induction i xs arbitrary: out rule: normalize_from.induct)
  case (2 i tc rest)
  then show ?case by (auto simp: and_then_def split: sum.splits)
qed auto

lemma normalize_value_list: "normalize_value (py_or (PList tcs) (PList [])) = normalize_tool_calls tcs"
  by (cases tcs) (simp_all add: normalize_value_def py_or_def and_then_def normalize_tool_calls_def)

text \<open>C2: when the response holds, under \<^verbatim>\<open>tool_calls\<close>, a list with at least one
  structured call (a map), the round's decision is what normalising that list gives, calls
  or exception: the content of the response is not read and the message is left as it is.
  And whenever the text was searched, the structured path had given no call.\<close>

theorem structured_calls_preempt_text:
  "(py_get msg ''tool_calls'' PNone = Inr (PList tcs) \<and> (\<exists>tc \<in> set tcs. is_dict tc) \<longrightarrow>
      decide_calls msg =
        and_then (normalize_tool_calls tcs)
          (\<lambda>cs. Inr \<lparr>text_searched = False, calls = cs, message = msg\<rparr>))
   \<and> (decide_calls msg = Inr dec \<and> text_searched dec \<longrightarrow>
        (\<exists>v. py_get msg ''tool_calls'' PNone = Inr v
           \<and> normalize_value (py_or v (PList [])) = Inr []))"
proof (intro conjI impI)
  assume a: "py_get msg ''tool_calls'' PNone = Inr (PList tcs) \<and> (\<exists>tc \<in> set tcs. is_dict tc)"
  show "decide_calls msg =
        and_then (normalize_tool_calls tcs)
          (\<lambda>cs. Inr \<lparr>text_searched = False, calls = cs, message = msg\<rparr>)"
  proof (cases "normalize_tool_calls tcs")
    case (Inl e)
    with a show ?thesis by (simp add: decide_calls_def and_then_def normalize_value_list)
  next
    case (Inr cs)
    with a have "cs \<noteq> []"
      using normalize_from_keeps_dicts [of tcs 0 cs] by (simp add: normalize_tool_calls_def)
    with a Inr show ?thesis by (simp add: decide_calls_def and_then_def normalize_value_list)
  qed
next
  assume b: "decide_calls msg = Inr dec \<and> text_searched dec"
  then show "\<exists>v. py_get msg ''tool_calls'' PNone = Inr v
           \<and> normalize_value (py_or v (PList [])) = Inr []"
    by (auto simp: decide_calls_def and_then_def split: sum.splits if_splits)
qed


theorem structured_calls_preempt_text_witness:
  "decide_calls (PDict [(''content'', PStr ''see <function=g></function>''),
                        (''tool_calls'', PList [PDict [(''id'', PStr ''c1''),
                           (''function'', PDict [(''name'', PStr ''f''), (''arguments'', PStr ''{}'')])]])])
   = Inr \<lparr>text_searched = False,
          calls = [PDict [(''id'', PStr ''c1''),
                     (''function'', PDict [(''name'', PStr ''f''), (''arguments'', PStr ''{}'')]),
                     (''index'', PInt 0)]],
          message = PDict [(''content'', PStr ''see <function=g></function>''),
                        (''tool_calls'', PList [PDict [(''id'', PStr ''c1''),
                           (''function'', PDict [(''name'', PStr ''f''), (''arguments'', PStr ''{}'')])]])]\<rparr>
   \<and> decide_calls (PDict [(''content'', PStr ''<function=g></function>''), (''tool_calls'', PList [PInt 5])])
       = Inr \<lparr>text_searched = True,
              calls = [PDict [(''index'', PInt 0), (''id'', PStr ''call_text_0''), (''type'', PStr ''function''),
                         (''function'', PDict [(''name'', PStr ''g''), (''arguments'', PStr ''{}'')])]],
              message = PDict [(''content'', PStr []), (''tool_calls'', PList [PInt 5])]\<rparr>
   \<and> normalize_value (py_or (PList [PInt 5]) (PList [])) = Inr []"
proof -
  let ?m1 = "PDict [(''content'', PStr ''see <function=g></function>''),
                        (''tool_calls'', PList [PDict [(''id'', PStr ''c1''),
                           (''function'', PDict [(''name'', PStr ''f''), (''arguments'', PStr ''{}'')])]])]"
  let ?tcs = "[PDict [(''id'', PStr ''c1''),
                           (''function'', PDict [(''name'', PStr ''f''), (''arguments'', PStr ''{}'')])]]"
  let ?m2 = "PDict [(''content'', PStr ''<function=g></function>''), (''tool_calls'', PList [PInt 5])]"
  have g: "py_get ?m1 ''tool_calls'' PNone = Inr (PList ?tcs) \<and> (\<exists>tc \<in> set ?tcs. is_dict tc)"
    by (simp add: dict_get_def)
  have n: "normalize_tool_calls ?tcs = Inr [PDict [(''id'', PStr ''c1''),
                     (''function'', PDict [(''name'', PStr ''f''), (''arguments'', PStr ''{}'')]),
                     (''index'', PInt 0)]]"
    by (simp add: normalize_tool_calls_def and_then_def dict_get_def dict_set_def)
  have d2: "decide_calls ?m2 = Inr \<lparr>text_searched = True,
              calls = [PDict [(''index'', PInt 0), (''id'', PStr ''call_text_0''), (''type'', PStr ''function''),
                         (''function'', PDict [(''name'', PStr ''g''), (''arguments'', PStr ''{}'')])]],
              message = PDict [(''content'', PStr []), (''tool_calls'', PList [PInt 5])]\<rparr>"
    by code_simp
  from structured_calls_preempt_text [where msg = ?m1 and tcs = ?tcs] g n
  have 1: "decide_calls ?m1 = Inr \<lparr>text_searched = False,
          calls = [PDict [(''id'', PStr ''c1''),
                     (''function'', PDict [(''name'', PStr ''f''), (''arguments'', PStr ''{}'')]),
                     (''index'', PInt 0)]], message = ?m1\<rparr>"
    by (simp add: and_then_def)
  from structured_calls_preempt_text [where msg = ?m2 and dec = "\<lparr>text_searched = True,
              calls = [PDict [(''index'', PInt 0), (''id'', PStr ''call_text_0''), (''type'', PStr ''function''),
                         (''function'', PDict [(''name'', PStr ''g''), (''arguments'', PStr ''{}'')])]],
              message = PDict [(''content'', PStr []), (''tool_calls'', PList [PInt 5])]\<rparr>"] d2
  have 2: "normalize_value (py_or (PList [PInt 5]) (PList [])) = Inr []"
    by (simp add: dict_get_def)
  from 1 2 d2 show ?thesis by simp
qed

lemma text_calls_truncate_content:
  assumes "decide_calls msg = Inr dec" and "text_searched dec" and "calls dec \<noteq> []"
  shows "\<exists>m content.
           msg = PDict m \<and> py_or (dict_get m ''content'' PNone) (PStr []) = PStr content
           \<and> message dec = PDict (dict_set ''content'' (PStr (truncate_content content)) m)
           \<and> \<not> contains call_marker (truncate_content content)"
proof -
  from assms(1) obtain m where m: "msg = PDict m"
    by (cases msg) (simp_all add: decide_calls_def and_then_def)
  from assms m obtain content where
    "py_or (dict_get m ''content'' PNone) (PStr []) = PStr content"
    "message dec = PDict (dict_set ''content'' (PStr (truncate_content content)) m)"
    by (auto simp: decide_calls_def and_then_def split: sum.splits if_splits pyval.splits)
  with m show ?thesis by (auto simp: truncate_content_free)
qed

text \<open>C3 does not hold of the code: the pattern is matched whatever the case, and finds the
  block written in capitals, but the test \<^verbatim>\<open>"<function=" not in content\<close> before it is exact
  in case and returns the empty list first.\<close>

theorem extraction_misses_upper_case_call:
  "findall_blocks ''function'' ''<FUNCTION=foo><parameter=x>1</parameter></FUNCTION>''
     = [(''foo'', ''<parameter=x>1</parameter>'')]
   \<and> extract_text_tool_calls ''<FUNCTION=foo><parameter=x>1</parameter></FUNCTION>'' = []"
  by code_simp

text \<open>The example of the specification, section 8: one call named \<^verbatim>\<open>foo\<close> with the arguments
  \<^verbatim>\<open>{"x": "1"}\<close>.\<close>

lemma extraction_example:
  "extract_text_tool_calls ''<function=foo><parameter=x>1</parameter></function>'' =
     [PDict [(''index'', PInt 0), (''id'', PStr ''call_text_0''), (''type'', PStr ''function''),
        (''function'', PDict [(''name'', PStr ''foo''),
           (''arguments'', PStr ([CHR ''{'', CHR 0x22, CHR ''x'', CHR 0x22] @ '': ''
                                  @ [CHR 0x22, CHR ''1'', CHR 0x22, CHR ''}'']))])]]"
  by code_simp

text \<open>C8 does not hold of the code: the content is cut at the first \<^verbatim>\<open><function=\<close> in lower
  case, while the calls are found whatever the case.  Here two calls are extracted and the
  markup of the first stays in the stored content (\<open>text_calls_truncate_content\<close> is what
  holds: the stored content is the text before the first lower-case marker, right-trimmed).\<close>

theorem upper_case_markup_stays_in_content:
  "decide_calls (PDict [(''role'', PStr ''assistant''),
      (''content'', PStr ''<FUNCTION=a></FUNCTION> <function=b></function>'')])
   = Inr \<lparr>text_searched = True,
          calls = [PDict [(''index'', PInt 0), (''id'', PStr ''call_text_0''), (''type'', PStr ''function''),
                     (''function'', PDict [(''name'', PStr ''a''), (''arguments'', PStr ''{}'')])],
                   PDict [(''index'', PInt 1), (''id'', PStr ''call_text_1''), (''type'', PStr ''function''),
                     (''function'', PDict [(''name'', PStr ''b''), (''arguments'', PStr ''{}'')])]],
          message = PDict [(''role'', PStr ''assistant''), (''content'', PStr ''<FUNCTION=a></FUNCTION>'')]\<rparr>"
  by code_simp

section \<open>Example values\<close>

text \<open>A session as the host sets it up: a user, a model, two inherited tool identifiers of
  which one is this tool's own, no sink.\<close>

definition example_arguments :: arguments where
  "example_arguments =
     \<lparr>prompt = ''How many open tickets?'',
      include_recent_messages = 0,
      user_arg = PDict [(''id'', PStr ''u1'')],
      metadata_arg = PDict [(''tool_ids'', PList [PStr ''search'', PStr ''Subquery''])],
      messages_arg = Some [PDict [(''role'', PStr ''user''), (''content'', PStr ''earlier'')]],
      files_arg = PNone,
      model_arg = PDict [(''id'', PStr ''m1'')],
      request_arg = PObj ''request'',
      event_emitter = None\<rparr>"

text \<open>A tool \<^verbatim>\<open>def search(q=None, __user__=None)\<close> that returns its query.\<close>

definition example_tool :: tool where
  "example_tool =
     \<lparr>parameters = [''q'', ''__user__''],
      var_keyword = False,
      invoke = (\<lambda>kw. Inr (dict_get kw ''q'' PNone))\<rparr>"

definition example_registry :: registry where
  "example_registry = (\<lambda>n. if n = ''search'' then Some example_tool else None)"

text \<open>The decoder on the two argument texts of the examples: \<^verbatim>\<open>{}\<close> is the empty object, and
  on \<^verbatim>\<open>{\<close> it raises JSONDecodeError, a ValueError.\<close>

definition example_json_loads :: "string \<Rightarrow> error + pyval" where
  "example_json_loads s = (if s = ''{}'' then Inr (PDict []) else Inl ValueError)"

text \<open>The message of a completion that asks for one structured call, and the response
  around it.\<close>

definition message_calling :: "string \<Rightarrow> string \<Rightarrow> pyval" where
  "message_calling name args =
     PDict [(''role'', PStr ''assistant''), (''content'', PNone),
            (''tool_calls'', PList [PDict [(''id'', PStr ''c1''), (''type'', PStr ''function''),
               (''function'', PDict [(''name'', PStr name), (''arguments'', PStr args)])]])]"

definition response_calling :: "string \<Rightarrow> string \<Rightarrow> pyval" where
  "response_calling name args = PDict [(''choices'', PList [PDict [(''message'', message_calling name args)]])]"

text \<open>A model that asks for the same call in every round.\<close>

definition example_world :: "string \<Rightarrow> string \<Rightarrow> world" where
  "example_world name args =
     \<lparr>chat_completion = (\<lambda>_ _. Inr (response_calling name args)),
      get_tools = (\<lambda>_. Inr example_registry),
      json_loads = example_json_loads,
      make_user = (\<lambda>_. Inr (PObj ''UserModel''))\<rparr>"

section \<open>Properties of the dispatcher\<close>

lemma call_name_shape:
  assumes "call_name tc = Inr name"
  obtains d f where "tc = PDict d" and "map_of d ''function'' = Some (PDict f)"
    and "map_of f ''name'' = Some name"
proof -
  from assms obtain d where d: "tc = PDict d"
    by (cases tc) (simp_all add: call_name_def and_then_def)
  with assms obtain fv where fv: "map_of d ''function'' = Some fv"
    by (cases "map_of d ''function''") (simp_all add: call_name_def and_then_def)
  with assms d obtain f where f: "fv = PDict f"
    by (cases fv) (simp_all add: call_name_def and_then_def)
  with assms d fv have "map_of f ''name'' = Some name"
    by (cases "map_of f ''name''") (simp_all add: call_name_def and_then_def)
  with d fv f that show ?thesis by blast
qed

text \<open>C4: a call whose function name the registry does not hold makes the dispatcher append
  one message of role \<^verbatim>\<open>tool\<close>, tagged with the call's identifier and name, whose content is
  the notice with the name in it; nothing is raised, and the rest of the batch is dispatched
  from the conversation so extended.\<close>

theorem unknown_tool_is_reported:
  assumes "call_name tc = Inr name" and "lookup_tool reg name = Inr None"
  shows "\<exists>tc_id.
           dispatch_call w reg a u tc messages =
             Inr (messages @
                  [PDict [(''role'', PStr ''tool''), (''tool_call_id'', tc_id), (''name'', name),
                          (''content'', PStr (''Tool '' @ [CHR 0x27] @ printed name @ [CHR 0x27]
                                              @ '' not found''))]])
           \<and> dispatch_all w reg a u (tc # rest) messages =
               dispatch_all w reg a u rest
                 (messages @
                  [PDict [(''role'', PStr ''tool''), (''tool_call_id'', tc_id), (''name'', name),
                          (''content'', PStr (''Tool '' @ [CHR 0x27] @ printed name @ [CHR 0x27]
                                              @ '' not found''))]])"
proof -
  from assms(1) obtain d f where s: "tc = PDict d" "map_of d ''function'' = Some (PDict f)"
    "map_of f ''name'' = Some name" by (rule call_name_shape)
  with assms have "dispatch_call w reg a u tc messages =
      Inr (messages @ [tool_message (dict_get d ''id'' (PStr [])) name (not_found_notice name)])"
    by (simp add: dispatch_call_def and_then_def)
  then show ?thesis
    by (auto simp: tool_message_def not_found_notice_def and_then_def)
qed

theorem unknown_tool_is_reported_witness:
  "dispatch_all (example_world ''lookup'' ''{'')
      example_registry example_arguments (PObj ''UserModel'')
      [PDict [(''id'', PStr ''c1''), (''function'', PDict [(''name'', PStr ''lookup''), (''arguments'', PStr ''{'')])],
       PDict [(''id'', PStr ''c2''), (''function'', PDict [(''name'', PStr ''fetch'')])]]
      []
   = Inr [PDict [(''role'', PStr ''tool''), (''tool_call_id'', PStr ''c1''), (''name'', PStr ''lookup''),
                 (''content'', PStr (''Tool '' @ [CHR 0x27] @ ''lookup'' @ [CHR 0x27] @ '' not found''))],
          PDict [(''role'', PStr ''tool''), (''tool_call_id'', PStr ''c2''), (''name'', PStr ''fetch''),
                 (''content'', PStr (''Tool '' @ [CHR 0x27] @ ''fetch'' @ [CHR 0x27] @ '' not found''))]]"
proof -
  let ?w = "example_world ''lookup'' ''{''"
  let ?reg = "example_registry"
  let ?t1 = "PDict [(''id'', PStr ''c1''), (''function'', PDict [(''name'', PStr ''lookup''), (''arguments'', PStr ''{'')])]"
  let ?t2 = "PDict [(''id'', PStr ''c2''), (''function'', PDict [(''name'', PStr ''fetch'')])]"
  have n1: "call_name ?t1 = Inr (PStr ''lookup'')" by (simp add: call_name_def and_then_def)
  have l1: "lookup_tool ?reg (PStr ''lookup'') = Inr None" by (simp add: example_registry_def)
  have d1: "dispatch_call ?w ?reg example_arguments (PObj ''UserModel'') ?t1 [] =
     Inr [PDict [(''role'', PStr ''tool''), (''tool_call_id'', PStr ''c1''), (''name'', PStr ''lookup''),
                 (''content'', PStr (''Tool '' @ [CHR 0x27] @ ''lookup'' @ [CHR 0x27] @ '' not found''))]]"
    by (simp add: dispatch_call_def call_name_def and_then_def dict_get_def tool_message_def
        not_found_notice_def example_registry_def)
  from unknown_tool_is_reported [OF n1 l1, of ?w example_arguments "PObj ''UserModel''" "[]" "[?t2]"] d1
  have "dispatch_all ?w ?reg example_arguments (PObj ''UserModel'') [?t1, ?t2] [] =
        dispatch_all ?w ?reg example_arguments (PObj ''UserModel'') [?t2]
          [PDict [(''role'', PStr ''tool''), (''tool_call_id'', PStr ''c1''), (''name'', PStr ''lookup''),
                 (''content'', PStr (''Tool '' @ [CHR 0x27] @ ''lookup'' @ [CHR 0x27] @ '' not found''))]]"
    by auto
  also have "\<dots> = Inr [PDict [(''role'', PStr ''tool''), (''tool_call_id'', PStr ''c1''), (''name'', PStr ''lookup''),
                 (''content'', PStr (''Tool '' @ [CHR 0x27] @ ''lookup'' @ [CHR 0x27] @ '' not found''))],
          PDict [(''role'', PStr ''tool''), (''tool_call_id'', PStr ''c2''), (''name'', PStr ''fetch''),
                 (''content'', PStr (''Tool '' @ [CHR 0x27] @ ''fetch'' @ [CHR 0x27] @ '' not found''))]]"
    by (simp add: dispatch_call_def call_name_def and_then_def dict_get_def tool_message_def
        not_found_notice_def example_registry_def)
  finally show ?thesis .
qed






section \<open>Properties of the loop\<close>


lemma round_goes_on:
  "round_body w a ss round_num messages = Inr (Next messages') \<Longrightarrow>
     \<exists>data choices choice msg dec.
        chat_completion w round_num (completion_request a ss messages) = Inr data
        \<and> item_str data ''choices'' = Inr choices \<and> item_first choices = Inr choice
        \<and> item_str choice ''message'' = Inr msg
        \<and> decide_calls msg = Inr dec \<and> calls dec \<noteq> []"
  by (auto simp: round_body_def and_then_def split: sum.splits if_splits)

lemma round_ends:
  "round_body w a ss round_num messages = Inr (Done answer) \<Longrightarrow>
     \<exists>data choices choice msg dec.
        chat_completion w round_num (completion_request a ss messages) = Inr data
        \<and> item_str data ''choices'' = Inr choices \<and> item_first choices = Inr choice
        \<and> item_str choice ''message'' = Inr msg
        \<and> decide_calls msg = Inr dec \<and> calls dec = []"
  by (auto simp: round_body_def and_then_def split: sum.splits if_splits)








text \<open>Scenario B of the specification: the first response asks for one structured call to
  a registered tool, the second is plain text.  One reply of role \<^verbatim>\<open>tool\<close> is appended and the
  text of the second response, trimmed, is returned after two rounds.\<close>

definition two_round_world :: world where
  "two_round_world =
     \<lparr>chat_completion = (\<lambda>round_num request.
        if round_num = 0 then Inr (response_calling ''search'' ''{}'')
        else Inr (PDict [(''choices'', PList [PDict [(''message'',
               PDict [(''role'', PStr ''assistant''), (''content'', PStr '' 42 tickets '')])]])])),
      get_tools = (\<lambda>_. Inr example_registry),
      json_loads = example_json_loads,
      make_user = (\<lambda>_. Inr (PObj ''UserModel''))\<rparr>"

lemma scenario_one_tool_call:
  "subquery two_round_world default_max_rounds example_arguments = (2, Inr ''42 tickets'')
   \<and> round_body two_round_world example_arguments
         \<lparr>tool_ids = Some [PStr ''search''], tools_registry = example_registry,
          params = [(''function_calling'', PStr ''native'')], model_id = PStr ''m1'',
          user = PObj ''UserModel''\<rparr>
         0 [user_message ''How many open tickets?'']
       = Inr (Next [user_message ''How many open tickets?'',
                    PDict [(''role'', PStr ''assistant''), (''content'', PStr []),
                           (''tool_calls'', PList [PDict [(''id'', PStr ''c1''), (''type'', PStr ''function''),
                              (''function'', PDict [(''name'', PStr ''search''), (''arguments'', PStr ''{}'')]),
                              (''index'', PInt 0)]])],
                    PDict [(''role'', PStr ''tool''), (''tool_call_id'', PStr ''c1''),
                           (''name'', PStr ''search''), (''content'', PStr ''null'')]])"
  by code_simp

end
